theory Spec2Isabelle
  imports Main
begin

section \<open>JavaScript values\<close>

text \<open>
  The service is a Node.js program. Webhook events and realtime messages reach it as the
  result of \<^verbatim>\<open>JSON.parse\<close>; the handlers then read properties with \<^verbatim>\<open>.\<close>, \<^verbatim>\<open>?.\<close> and
  \<^verbatim>\<open>?.[0]\<close>, test values for truthiness and interpolate them in template strings.
  A parsed value is a \<open>json\<close>; \<^verbatim>\<open>undefined\<close> is \<open>None\<close> of \<open>json option\<close>.

  A number is carried as its canonical rendering (what \<^verbatim>\<open>String(n)\<close> gives): the program
  does no arithmetic on payload numbers, it only tests them for zero and interpolates
  them. Both zeros render as \<^verbatim>\<open>0\<close>, and \<^verbatim>\<open>JSON.parse\<close> never yields \<^verbatim>\<open>NaN\<close>.
  Strings are HOL strings; a character is one code unit.
\<close>

datatype json =
    JNull
  | JBool bool
  | JNum string
  | JStr string
  | JArr "json list"
  | JObj "(string \<times> json) list"

datatype js_error = JsError (err_name: string) (err_message: string)

text \<open>The state of a promise the program waits for (or drops).\<close>

datatype 'a outcome = Pending | Rejected js_error | Resolved 'a

text \<open>Truthiness, as \<^verbatim>\<open>if (v)\<close> and \<^verbatim>\<open>!v\<close> read it.\<close>

fun js_truthy :: "json option \<Rightarrow> bool" where
  "js_truthy None = False"
| "js_truthy (Some JNull) = False"
| "js_truthy (Some (JBool b)) = b"
| "js_truthy (Some (JNum r)) = (r \<noteq> ''0'')"
| "js_truthy (Some (JStr s)) = (s \<noteq> [])"
| "js_truthy (Some (JArr xs)) = True"
| "js_truthy (Some (JObj kvs)) = True"

text \<open>
  Reading a named property of a value that is neither \<^verbatim>\<open>null\<close> nor \<^verbatim>\<open>undefined\<close>. The names
  the program reads (\<^verbatim>\<open>type\<close>, \<^verbatim>\<open>data\<close>, \<^verbatim>\<open>call_id\<close>, \<^verbatim>\<open>sip_headers\<close>, \<^verbatim>\<open>name\<close>, \<^verbatim>\<open>value\<close>,
  \<^verbatim>\<open>response\<close>, \<^verbatim>\<open>output\<close>) are not members of any built-in prototype, so only an object
  has them, and only as own properties. \<^verbatim>\<open>JSON.parse\<close> keeps the last of duplicate keys.
\<close>

fun own_prop :: "json \<Rightarrow> string \<Rightarrow> json option" where
  "own_prop (JObj kvs) p = map_of (rev kvs) p"
| "own_prop _ p = None"

text \<open>\<^verbatim>\<open>v.p\<close>: a TypeError on \<^verbatim>\<open>null\<close> and \<^verbatim>\<open>undefined\<close>.\<close>

definition cannot_read :: "string \<Rightarrow> js_error" where
  "cannot_read p = JsError ''TypeError'' (''Cannot read properties of null (reading '' @ p @ '')'')"

fun js_dot :: "json option \<Rightarrow> string \<Rightarrow> js_error + json option" where
  "js_dot None p = Inl (cannot_read p)"
| "js_dot (Some JNull) p = Inl (cannot_read p)"
| "js_dot (Some v) p = Inr (own_prop v p)"

text \<open>\<^verbatim>\<open>v?.p\<close>: \<^verbatim>\<open>undefined\<close> on \<^verbatim>\<open>null\<close> and \<^verbatim>\<open>undefined\<close>.\<close>

fun js_opt :: "json option \<Rightarrow> string \<Rightarrow> json option" where
  "js_opt None p = None"
| "js_opt (Some JNull) p = None"
| "js_opt (Some v) p = own_prop v p"

text \<open>\<^verbatim>\<open>v?.[0]\<close>: the first element of an array, the first character of a string, the
  property \<^verbatim>\<open>0\<close> of an object.\<close>

fun js_opt_first :: "json option \<Rightarrow> json option" where
  "js_opt_first (Some (JArr xs)) = (case xs of [] \<Rightarrow> None | x # _ \<Rightarrow> Some x)"
| "js_opt_first (Some (JStr s)) = (case s of [] \<Rightarrow> None | c # _ \<Rightarrow> Some (JStr [c]))"
| "js_opt_first (Some (JObj kvs)) = map_of (rev kvs) ''0''"
| "js_opt_first _ = None"

text \<open>
  Conversion to a string, as a template literal and a property key do it. A parsed object
  prints as \<^verbatim>\<open>[object Object]\<close> unless it has an own \<^verbatim>\<open>toString\<close> property: that one is data,
  not a function, and the inherited \<^verbatim>\<open>valueOf\<close> returns the object, so the conversion throws.
  An array joins its elements with commas, \<^verbatim>\<open>null\<close> elements printing as nothing.
\<close>

definition cannot_convert :: js_error where
  "cannot_convert = JsError ''TypeError'' ''Cannot convert object to primitive value''"

fun js_to_string :: "json \<Rightarrow> js_error + string"
  and join_elements :: "json list \<Rightarrow> js_error + string" where
  "js_to_string JNull = Inr ''null''"
| "js_to_string (JBool b) = Inr (if b then ''true'' else ''false'')"
| "js_to_string (JNum r) = Inr r"
| "js_to_string (JStr s) = Inr s"
| "js_to_string (JArr xs) = join_elements xs"
| "js_to_string (JObj kvs) =
     (if ''toString'' \<in> set (map fst kvs) then Inl cannot_convert else Inr ''[object Object]'')"
| "join_elements [] = Inr []"
| "join_elements (x # xs) =
     (case (if x = JNull then Inr [] else js_to_string x) of
        Inl e \<Rightarrow> Inl e
      | Inr s \<Rightarrow>
          (if xs = [] then Inr s
           else (case join_elements xs of Inl e \<Rightarrow> Inl e | Inr t \<Rightarrow> Inr (s @ '','' @ t))))"

fun template :: "json option \<Rightarrow> js_error + string" where
  "template None = Inr ''undefined''"
| "template (Some v) = js_to_string v"

section \<open>Values at run time, and objects used as dictionaries\<close>

text \<open>
  What a read of a table can give: \<^verbatim>\<open>undefined\<close>, a value that came out of a parsed
  payload, a built-in function inherited from a prototype (known by its name), or the
  object \<^verbatim>\<open>Object.prototype\<close> itself.
\<close>

datatype jsval = Undefined | Parsed json | NativeFunction string | PrototypeObject

fun of_parsed :: "json option \<Rightarrow> jsval" where
  "of_parsed None = Undefined"
| "of_parsed (Some v) = Parsed v"

fun of_field :: "string option \<Rightarrow> jsval" where
  "of_field None = Undefined"
| "of_field (Some s) = Parsed (JStr s)"

fun jsval_truthy :: "jsval \<Rightarrow> bool" where
  "jsval_truthy Undefined = False"
| "jsval_truthy (Parsed v) = js_truthy (Some v)"
| "jsval_truthy (NativeFunction n) = True"
| "jsval_truthy PrototypeObject = True"

text \<open>What \<^verbatim>\<open>??\<close> replaces: \<^verbatim>\<open>undefined\<close> and \<^verbatim>\<open>null\<close>.\<close>

fun nullish :: "jsval \<Rightarrow> bool" where
  "nullish Undefined = True"
| "nullish (Parsed JNull) = True"
| "nullish _ = False"

text \<open>
  Conversion to a property key. A built-in function prints as its source text, which
  the engine gives as \<^verbatim>\<open>function NAME() { [native code] }\<close>.
\<close>

fun jsval_to_string :: "jsval \<Rightarrow> js_error + string" where
  "jsval_to_string Undefined = Inr ''undefined''"
| "jsval_to_string (Parsed v) = js_to_string v"
| "jsval_to_string (NativeFunction n) = Inr (''function '' @ n @ ''() { [native code] }'')"
| "jsval_to_string PrototypeObject = Inr ''[object Object]''"

text \<open>Decimal digits of a number: array indices and \<^verbatim>\<open>length\<close> as property keys and values.\<close>

fun show_nat :: "nat \<Rightarrow> string" where
  "show_nat n =
     (if n < 10 then [char_of (48 + n)] else show_nat (n div 10) @ [char_of (48 + n mod 10)])"

text \<open>
  The members every object inherits from \<^verbatim>\<open>Object.prototype\<close>, besides the accessor
  \<^verbatim>\<open>__proto__\<close>, and the members an array inherits from \<^verbatim>\<open>Array.prototype\<close> (ECMAScript 2023,
  the edition of the Node.js release the README names).
\<close>

definition object_prototype_members :: "string list" where
  "object_prototype_members =
     [''constructor'', ''__defineGetter__'', ''__defineSetter__'', ''hasOwnProperty'',
      ''__lookupGetter__'', ''__lookupSetter__'', ''isPrototypeOf'', ''propertyIsEnumerable'',
      ''toString'', ''valueOf'', ''toLocaleString'']"

definition array_prototype_members :: "string list" where
  "array_prototype_members =
     [''constructor'', ''at'', ''concat'', ''copyWithin'', ''fill'', ''find'', ''findIndex'',
      ''findLast'', ''findLastIndex'', ''lastIndexOf'', ''pop'', ''push'', ''reverse'', ''shift'',
      ''unshift'', ''slice'', ''sort'', ''splice'', ''includes'', ''indexOf'', ''join'', ''keys'',
      ''entries'', ''values'', ''forEach'', ''filter'', ''flat'', ''flatMap'', ''map'', ''every'',
      ''some'', ''reduce'', ''reduceRight'', ''toLocaleString'', ''toString'', ''toReversed'',
      ''toSorted'', ''toSpliced'', ''with'']"

text \<open>
  The prototype of a table. A table starts as \<^verbatim>\<open>{}\<close>, whose prototype is
  \<^verbatim>\<open>Object.prototype\<close>; an assignment under the key \<^verbatim>\<open>__proto__\<close> can replace it by a parsed
  object, by a parsed array, or by \<^verbatim>\<open>null\<close>.
\<close>

datatype proto =
    ObjectProto
  | NullProto
  | ObjectLiteral "(string \<times> json) list"
  | ArrayLiteral "json list"

text \<open>
  A read that reaches \<^verbatim>\<open>Object.prototype\<close>; \<open>p\<close> is the prototype of the object the read
  started from, which is what the accessor \<^verbatim>\<open>__proto__\<close> returns.
\<close>

definition from_object_prototype :: "jsval \<Rightarrow> string \<Rightarrow> jsval" where
  "from_object_prototype p k =
     (if k = ''__proto__'' then p
      else if k = ''constructor'' then NativeFunction ''Object''
      else if k \<in> set object_prototype_members then NativeFunction k
      else Undefined)"

text \<open>A read of a key that is not an own property, through the prototype.\<close>

fun inherited :: "proto \<Rightarrow> string \<Rightarrow> jsval" where
  "inherited ObjectProto k = from_object_prototype PrototypeObject k"
| "inherited NullProto k = Undefined"
| "inherited (ObjectLiteral kvs) k =
     (case map_of (rev kvs) k of
        Some v \<Rightarrow> Parsed v
      | None \<Rightarrow> from_object_prototype (Parsed (JObj kvs)) k)"
| "inherited (ArrayLiteral xs) k =
     (case map_of (zip (map show_nat [0..<length xs]) xs) k of
        Some v \<Rightarrow> Parsed v
      | None \<Rightarrow>
          if k = ''length'' then Parsed (JNum (show_nat (length xs)))
          else if k = ''constructor'' then NativeFunction ''Array''
          else if k \<in> set array_prototype_members then NativeFunction k
          else from_object_prototype (Parsed (JArr xs)) k)"

text \<open>
  A table: its own properties (\<open>Some None\<close> is an own property holding \<^verbatim>\<open>undefined\<close>) and
  its prototype.
\<close>

record table =
  own :: "string \<Rightarrow> json option option"
  proto :: proto

definition empty_table :: table where
  "empty_table = \<lparr>own = (\<lambda>k. None), proto = ObjectProto\<rparr>"

text \<open>\<^verbatim>\<open>t[k]\<close>.\<close>

definition table_get :: "table \<Rightarrow> string \<Rightarrow> jsval" where
  "table_get t k = (case own t k of Some v \<Rightarrow> of_parsed v | None \<Rightarrow> inherited (proto t) k)"

text \<open>
  \<^verbatim>\<open>t[k] = v\<close>. Every inherited member is a writable data property except the accessor
  \<^verbatim>\<open>__proto__\<close>, so the assignment makes or updates an own property unless the key is
  \<^verbatim>\<open>__proto__\<close> and the search for it reaches that accessor: there is no own property of
  that name, the prototype chain is not cut by \<^verbatim>\<open>null\<close>, and a parsed object standing as
  prototype has no key of that name. The accessor replaces the prototype when \<open>v\<close> is an
  object or \<^verbatim>\<open>null\<close> and does nothing for any other value.
\<close>

definition reaches_proto_setter :: "table \<Rightarrow> bool" where
  "reaches_proto_setter t =
     (own t ''__proto__'' = None
      \<and> (case proto t of
            ObjectProto \<Rightarrow> True
          | NullProto \<Rightarrow> False
          | ObjectLiteral kvs \<Rightarrow> ''__proto__'' \<notin> set (map fst kvs)
          | ArrayLiteral xs \<Rightarrow> True))"

definition table_set :: "table \<Rightarrow> string \<Rightarrow> json option \<Rightarrow> table" where
  "table_set t k v =
     (if k = ''__proto__'' \<and> reaches_proto_setter t then
        (case v of
           Some (JObj kvs) \<Rightarrow> t\<lparr>proto := ObjectLiteral kvs\<rparr>
         | Some (JArr xs) \<Rightarrow> t\<lparr>proto := ArrayLiteral xs\<rparr>
         | Some JNull \<Rightarrow> t\<lparr>proto := NullProto\<rparr>
         | _ \<Rightarrow> t)
      else t\<lparr>own := (own t)(k \<mapsto> v)\<rparr>)"

section \<open>Configuration, correlation store, effects\<close>

text \<open>
  The settings read from the environment at start-up. The process exits unless every one
  of them is a non-empty string, so each is a string here. The webhook secret and the
  telephony credentials are used only inside the provider clients.
\<close>

record config =
  DOMAIN :: string
  OPENAI_API_KEY :: string
  OPENAI_PROJECT_ID :: string
  HUMAN_AGENT_NUMBER :: string

text \<open>
  The three process-wide tables, each created as \<^verbatim>\<open>{}\<close>. The conference name stored for a
  call id is whatever value the webhook event carried; caller numbers and call tokens
  are strings out of a form body, or \<^verbatim>\<open>undefined\<close>.
\<close>

record store =
  callIDtoConferenceNameMapping :: table
  ConferenceNametoCallerIDMapping :: table
  ConferenceNametoCallTokenMapping :: table

text \<open>The options of a \<^verbatim>\<open>participants.create\<close> call.\<close>

record participant_opts =
  opt_from :: jsval
  opt_label :: string
  opt_to :: string
  opt_earlyMedia :: bool
  opt_callToken :: jsval
  opt_conferenceStatusCallback :: "string option"
  opt_conferenceStatusCallbackEvent :: "string list"

text \<open>A conference participant as \<^verbatim>\<open>participants.list\<close> returns it.\<close>

record participant =
  label :: "string option"
  callSid :: string

record http_response =
  res_status :: nat
  res_headers :: "(string \<times> string) list"
  res_body :: string

datatype log_arg = LStr string | LNum nat | LVal jsval | LErr js_error

text \<open>
  What a handler does, in the order it does it: assignments to the tables, calls into the
  telephony client, the accept request, the timer, traffic on the websocket, log lines,
  the HTTP response, and a promise that rejects with nobody waiting for it.
  A call into the telephony client is recorded when the program reaches it with its
  arguments evaluated; what the client then does (it may refuse the arguments before
  any request leaves) is part of the outcome of the call.
\<close>

datatype effect =
    WriteCallIdToConference string "json option"
  | WriteConferenceToCaller string "string option"
  | WriteConferenceToToken string "string option"
  | ParticipantsCreate jsval participant_opts
  | ParticipantsList "string option" nat
  | CallUpdate string string
  | FetchAccept string string
  | SetTimeout string nat
  | WebSocketOpen string
  | WsSend json
  | ConsoleLog "log_arg list"
  | ConsoleError "log_arg list"
  | Respond http_response
  | UnhandledRejection js_error

fun is_respond :: "effect \<Rightarrow> bool" where
  "is_respond (Respond r) = True"
| "is_respond _ = False"

fun is_log :: "effect \<Rightarrow> bool" where
  "is_log (ConsoleLog xs) = True"
| "is_log (ConsoleError xs) = True"
| "is_log _ = False"

fun is_participants_create :: "effect \<Rightarrow> bool" where
  "is_participants_create (ParticipantsCreate c opts) = True"
| "is_participants_create _ = False"

fun is_call_update :: "effect \<Rightarrow> bool" where
  "is_call_update (CallUpdate sid s) = True"
| "is_call_update _ = False"

fun is_ws_send :: "effect \<Rightarrow> bool" where
  "is_ws_send (WsSend m) = True"
| "is_ws_send _ = False"

fun is_unhandled_rejection :: "effect \<Rightarrow> bool" where
  "is_unhandled_rejection (UnhandledRejection e) = True"
| "is_unhandled_rejection _ = False"

text \<open>
  \<open>precedes P Q es\<close>: in \<open>es\<close>, no \<open>Q\<close> effect happens until a \<open>P\<close> effect has happened.
\<close>

fun precedes :: "('a \<Rightarrow> bool) \<Rightarrow> ('a \<Rightarrow> bool) \<Rightarrow> 'a list \<Rightarrow> bool" where
  "precedes P Q [] = True"
| "precedes P Q (x # xs) = (if Q x then False else if P x then True else precedes P Q xs)"

text \<open>A promise whose result nobody awaits: only its rejection is observable.\<close>

fun dropped :: "'a outcome \<Rightarrow> effect list" where
  "dropped (Rejected e) = [UnhandledRejection e]"
| "dropped _ = []"

section \<open>Call intake: \<^verbatim>\<open>POST /incoming-call\<close>\<close>

text \<open>
  The body is form-encoded; \<open>parsedBody\<close> is the object built from it, a field that is
  missing reading as \<^verbatim>\<open>undefined\<close>.
\<close>

definition conferenceName :: "(string \<Rightarrow> string option) \<Rightarrow> string" where
  "conferenceName parsedBody =
     (case parsedBody ''CallSid'' of None \<Rightarrow> ''undefined'' | Some s \<Rightarrow> s)"

definition twimlResponse :: "config \<Rightarrow> string \<Rightarrow> string" where
  \<open>twimlResponse cfg name =
     ''<?xml version="1.0" encoding="UTF-8"?>\<newline>'' @
     replicate 24 CHR '' '' @ ''<Response>\<newline>'' @
     replicate 28 CHR '' '' @ ''<Dial>\<newline>'' @
     replicate 32 CHR '' '' @ ''<Conference \<newline>'' @
     replicate 36 CHR '' '' @ ''startConferenceOnEnter="true"\<newline>'' @
     replicate 36 CHR '' '' @ ''participantLabel="customer"\<newline>'' @
     replicate 36 CHR '' '' @ ''endConferenceOnExit="true"\<newline>'' @
     replicate 36 CHR '' '' @ ''statusCallback="https://'' @ DOMAIN cfg @ ''/conference-events"\<newline>'' @
     replicate 36 CHR '' '' @ ''statusCallbackEvent="join"\<newline>'' @
     replicate 32 CHR '' '' @ ''>\<newline>'' @
     replicate 36 CHR '' '' @ name @ ''\<newline>'' @
     replicate 32 CHR '' '' @ ''</Conference>\<newline>'' @
     replicate 28 CHR '' '' @ ''</Dial>\<newline>'' @
     replicate 24 CHR '' '' @ ''</Response>''\<close>

definition createParticipant :: "config \<Rightarrow> (string \<Rightarrow> string option) \<Rightarrow> effect" where
  "createParticipant cfg parsedBody =
     ParticipantsCreate (Parsed (JStr (conferenceName parsedBody)))
       \<lparr> opt_from = of_field (parsedBody ''From''),
         opt_label = ''virtual agent'',
         opt_to = ''sip:'' @ OPENAI_PROJECT_ID cfg
                  @ ''@sip.api.openai.com;transport=tls?X-conferenceName=''
                  @ conferenceName parsedBody,
         opt_earlyMedia = False,
         opt_callToken = of_field (parsedBody ''CallToken''),
         opt_conferenceStatusCallback = Some (''https://'' @ DOMAIN cfg @ ''/conference-events''),
         opt_conferenceStatusCallbackEvent = [''join''] \<rparr>"

text \<open>
  The handler assigns the two entries, starts \<^verbatim>\<open>createParticipant\<close> without awaiting it and
  sends the call-control document. \<open>created\<close> is what becomes of the participant request
  afterwards.
\<close>

definition incoming_call ::
  "config \<Rightarrow> store \<Rightarrow> (string \<Rightarrow> string option) \<Rightarrow> unit outcome \<Rightarrow> store \<times> effect list" where
  "incoming_call cfg st parsedBody created =
     (let name = conferenceName parsedBody;
          st1 = st\<lparr>ConferenceNametoCallerIDMapping :=
                     table_set (ConferenceNametoCallerIDMapping st) name
                       (map_option JStr (parsedBody ''From''))\<rparr>;
          st2 = st1\<lparr>ConferenceNametoCallTokenMapping :=
                     table_set (ConferenceNametoCallTokenMapping st1) name
                       (map_option JStr (parsedBody ''CallToken''))\<rparr>
      in (st2,
          [WriteConferenceToCaller name (parsedBody ''From''),
           WriteConferenceToToken name (parsedBody ''CallToken''),
           createParticipant cfg parsedBody,
           Respond \<lparr>res_status = 200,
                    res_headers = [(''Content-Type'', ''text/xml'')],
                    res_body = twimlResponse cfg name\<rparr>]
          @ dropped created))"

section \<open>Conference events: \<^verbatim>\<open>POST /conference-events\<close>\<close>

text \<open>
  The loop over the listed participants. Each status update is awaited: \<open>updated n\<close> is
  what becomes of the \<open>n\<close>-th update the loop issues. An update that rejects ends the
  loop, and one that never settles suspends it for good.
\<close>

fun disconnect_loop :: "(nat \<Rightarrow> unit outcome) \<Rightarrow> nat \<Rightarrow> participant list \<Rightarrow> effect list" where
  "disconnect_loop updated n [] = []"
| "disconnect_loop updated n (p # ps) =
     (if label p = Some ''virtual agent'' then
        CallUpdate (callSid p) ''completed'' #
          (case updated n of
             Resolved u \<Rightarrow>
               ConsoleLog [LStr ''Virtual agent call ended.''] # disconnect_loop updated (Suc n) ps
           | Rejected e \<Rightarrow> [UnhandledRejection e]
           | Pending \<Rightarrow> [])
      else disconnect_loop updated n ps)"

definition findVirtualAgentandDisconnect ::
  "(string \<Rightarrow> string option) \<Rightarrow> participant list outcome \<Rightarrow> (nat \<Rightarrow> unit outcome) \<Rightarrow> effect list" where
  "findVirtualAgentandDisconnect parsedBody listed updated =
     ParticipantsList (parsedBody ''ConferenceSid'') 20 #
       (case listed of
          Resolved participants \<Rightarrow> disconnect_loop updated 0 participants
        | Rejected e \<Rightarrow> [UnhandledRejection e]
        | Pending \<Rightarrow> [])"

definition conference_events ::
  "(string \<Rightarrow> string option) \<Rightarrow> participant list outcome \<Rightarrow> (nat \<Rightarrow> unit outcome) \<Rightarrow> effect list" where
  "conference_events parsedBody listed updated =
     (if parsedBody ''ParticipantLabel'' = Some ''human agent''
         \<and> parsedBody ''StatusCallbackEvent'' = Some ''participant-join''
      then findVirtualAgentandDisconnect parsedBody listed updated
      else [])"

section \<open>AI session acceptor: \<^verbatim>\<open>POST /\<close>\<close>

text \<open>The scan of the SIP headers: \<^verbatim>\<open>sipHeaders.find(header => header.name === ...)\<close>.\<close>

fun find_header :: "json list \<Rightarrow> js_error + json option" where
  "find_header [] = Inr None"
| "find_header (header # rest) =
     (case js_dot (Some header) ''name'' of
        Inl e \<Rightarrow> Inl e
      | Inr n \<Rightarrow> if n = Some (JStr ''X-conferenceName'') then Inr (Some header) else find_header rest)"

definition foundConferenceName :: "json option \<Rightarrow> js_error + json option" where
  "foundConferenceName sipHeaders =
     (case sipHeaders of
        Some (JArr headers) \<Rightarrow>
          (case find_header headers of
             Inl e \<Rightarrow> Inl e
           | Inr conferenceHeader \<Rightarrow> Inr (js_opt conferenceHeader ''value''))
      | _ \<Rightarrow> Inr None)"

text \<open>The response of the accept request, as far as the handler reads it.\<close>

record fetch_response =
  resp_status :: nat
  resp_statusText :: string
  resp_text :: "string outcome"

definition resp_ok :: "fetch_response \<Rightarrow> bool" where
  "resp_ok resp = (200 \<le> resp_status resp \<and> resp_status resp \<le> 299)"

text \<open>The \<^verbatim>\<open>catch\<close> block: lower-casing and substring search on the error message.\<close>

definition lower_char :: "char \<Rightarrow> char" where
  "lower_char c =
     (let n = (of_char c :: nat) in if 65 \<le> n \<and> n \<le> 90 then char_of (n + 32) else c)"

definition toLowerCase :: "string \<Rightarrow> string" where
  "toLowerCase s = map lower_char s"

fun starts_with :: "string \<Rightarrow> string \<Rightarrow> bool" where
  "starts_with s [] = True"
| "starts_with [] (c # cs) = False"
| "starts_with (d # ds) (c # cs) = (d = c \<and> starts_with ds cs)"

fun str_includes :: "string \<Rightarrow> string \<Rightarrow> bool" where
  "str_includes [] t = (t = [])"
| "str_includes (c # cs) t = (starts_with (c # cs) t \<or> str_includes cs t)"

definition catch_response :: "js_error \<Rightarrow> http_response" where
  "catch_response e =
     (if err_name e = ''InvalidWebhookSignatureError''
         \<or> str_includes (toLowerCase (err_message e)) ''invalid signature''
      then \<lparr>res_status = 400, res_headers = [], res_body = ''Invalid signature''\<rparr>
      else \<lparr>res_status = 500, res_headers = [], res_body = ''Server error''\<rparr>)"

definition wssUrl :: "string \<Rightarrow> string" where
  "wssUrl callId = ''wss://api.openai.com/v1/realtime?call_id='' @ callId"

text \<open>\<^verbatim>\<open>connectWithDelay\<close> hands \<^verbatim>\<open>websocketTask\<close> to the timer and returns.\<close>

definition connectWithDelay :: "string \<Rightarrow> nat \<Rightarrow> effect list" where
  "connectWithDelay sipWssUrl delay = [SetTimeout sipWssUrl delay]"

text \<open>
  The accept request and what follows it. \<open>FetchAccept\<close> carries the call id that the
  request path embeds and the \<^verbatim>\<open>Authorization\<close> header; the body is the constant
  \<^verbatim>\<open>callAccept\<close>. The second component is the exception the \<^verbatim>\<open>try\<close> block ends with, if any.
  \<^verbatim>\<open>res.sendStatus(200)\<close> sends the status text as the body.
\<close>

definition accept_call ::
  "config \<Rightarrow> string \<Rightarrow> fetch_response outcome \<Rightarrow> effect list \<times> js_error option" where
  "accept_call cfg callId fetched =
     (let request = FetchAccept callId (''Bearer '' @ OPENAI_API_KEY cfg) in
      case fetched of
        Pending \<Rightarrow> ([request], None)
      | Rejected e \<Rightarrow> ([request], Some e)
      | Resolved resp \<Rightarrow>
          if \<not> resp_ok resp then
            (case resp_text resp of
               Pending \<Rightarrow> ([request], None)
             | body \<Rightarrow>
                 ([request,
                   ConsoleError [LStr ''ACCEPT failed:'', LNum (resp_status resp),
                                 LStr (resp_statusText resp),
                                 LStr (case body of Resolved text \<Rightarrow> text | _ \<Rightarrow> [])],
                   Respond \<lparr>res_status = 500, res_headers = [], res_body = ''Accept failed''\<rparr>],
                  None))
          else
            (request # connectWithDelay (wssUrl callId) 0 @
               [Respond \<lparr>res_status = 200,
                         res_headers = [(''Authorization'', ''Bearer '' @ OPENAI_API_KEY cfg)],
                         res_body = ''OK''\<rparr>],
             None))"

definition post_root_try ::
  "config \<Rightarrow> store \<Rightarrow> json \<Rightarrow> fetch_response outcome \<Rightarrow> store \<times> effect list \<times> js_error option" where
  "post_root_try cfg st event fetched =
     (if js_opt (Some event) ''type'' = Some (JStr ''realtime.call.incoming'') then
        (let callId = js_opt (js_opt (Some event) ''data'') ''call_id'';
             sipHeaders = js_opt (js_opt (Some event) ''data'') ''sip_headers''
         in case foundConferenceName sipHeaders of
              Inl e \<Rightarrow> (st, [], Some e)
            | Inr found \<Rightarrow>
                (case template callId of
                   Inl e \<Rightarrow> (st, [], Some e)
                 | Inr key \<Rightarrow>
                     (st\<lparr>callIDtoConferenceNameMapping :=
                           table_set (callIDtoConferenceNameMapping st) key found\<rparr>,
                      WriteCallIdToConference key found # fst (accept_call cfg key fetched),
                      snd (accept_call cfg key fetched))))
      else (st, [Respond \<lparr>res_status = 200, res_headers = [], res_body = ''OK''\<rparr>], None))"

text \<open>
  The handler: \<open>unwrapped\<close> is what signature verification and parsing of the raw body
  give, \<open>fetched\<close> what the accept request gives. Whatever the \<^verbatim>\<open>try\<close> block throws is
  answered by the \<^verbatim>\<open>catch\<close> block.
\<close>

definition post_root ::
  "config \<Rightarrow> store \<Rightarrow> json outcome \<Rightarrow> fetch_response outcome \<Rightarrow> store \<times> effect list" where
  "post_root cfg st unwrapped fetched =
     (case unwrapped of
        Pending \<Rightarrow> (st, [])
      | Rejected e \<Rightarrow> (st, [Respond (catch_response e)])
      | Resolved event \<Rightarrow>
          (case post_root_try cfg st event fetched of
             (st', effs, None) \<Rightarrow> (st', effs)
           | (st', effs, Some e) \<Rightarrow> (st', effs @ [Respond (catch_response e)])))"

section \<open>Realtime transport session and hand-off\<close>

text \<open>
  \<^verbatim>\<open>new URL(uri).searchParams.get("call_id")\<close> is the runtime's URL parser, taken as a
  parameter \<open>url_call_id\<close>: the URL does not parse, it has no such parameter, or it has
  one. The WebSocket constructor parses its address with the same parser and throws on
  an address that does not parse, so a socket exists only for an address that does.
\<close>

datatype url_lookup = InvalidURL | NoParam | Param string

datatype websocket = WebSocket (ws_uri: string)

datatype completion = Returned | Threw js_error

definition websocketTask :: "(string \<Rightarrow> url_lookup) \<Rightarrow> string \<Rightarrow> effect list \<times> websocket option" where
  "websocketTask url_call_id uri =
     (if url_call_id uri = InvalidURL
      then ([UnhandledRejection (JsError ''SyntaxError'' (''Invalid URL: '' @ uri))], None)
      else ([WebSocketOpen uri], Some (WebSocket uri)))"

definition WELCOME_GREETING :: string where
  "WELCOME_GREETING = ''Hello, I'' @ [CHR 0x27] @ ''m an AI agent. How can I help you?''"

definition responseCreate :: json where
  "responseCreate =
     JObj [(''type'', JStr ''response.create''),
           (''response'', JObj [(''instructions'', JStr (''Say to the user: '' @ WELCOME_GREETING))])]"

definition on_open :: "websocket \<Rightarrow> effect list" where
  "on_open ws = [ConsoleLog [LStr (''WS OPEN '' @ ws_uri ws)], WsSend responseCreate]"

definition keepChatting :: json where
  "keepChatting =
     JObj [(''type'', JStr ''conversation.item.create''),
           (''item'',
            JObj [(''type'', JStr ''message''),
                  (''role'', JStr ''user''),
                  (''content'',
                   JArr [JObj [(''type'', JStr ''input_text''),
                               (''text'', JStr (''While we wait for the human agent, keep chatting with the user or ask if theres anything you can help with while they wait.''))]])])]"

text \<open>
  \<^verbatim>\<open>addHuman\<close> is an async function whose promise the caller drops. The first component is
  what it does before it first suspends, the second what happens afterwards; \<open>created\<close>
  is what becomes of the participant request. An exception inside it rejects the
  promise and reaches nobody. The three reads are reads of the tables as objects: a key
  without an entry that names an inherited member gives that member, which is neither
  falsy nor replaced by \<^verbatim>\<open>??\<close>.
\<close>

definition addHuman ::
  "config \<Rightarrow> store \<Rightarrow> string \<Rightarrow> unit outcome \<Rightarrow> effect list \<times> effect list" where
  "addHuman cfg st openAiCallId created =
     (let name = table_get (callIDtoConferenceNameMapping st) openAiCallId in
      if \<not> jsval_truthy name then
        ([ConsoleError [LStr ''Conference name is undefined for call ID:'', LStr openAiCallId]], [])
      else
        (let adding = ConsoleLog [LStr ''Adding human to conference:'', LVal name] in
         case jsval_to_string name of
           Inl e \<Rightarrow> ([adding], [UnhandledRejection e])
         | Inr key \<Rightarrow>
             (let callToken = table_get (ConferenceNametoCallTokenMapping st) key;
                  callerID = table_get (ConferenceNametoCallerIDMapping st) key
              in if nullish callerID then
                   ([adding], [UnhandledRejection (JsError ''Error'' ''CallerID is not defined'')])
                 else if nullish callToken then
                   ([adding], [UnhandledRejection (JsError ''Error'' ''CallToken is not defined'')])
                 else
                   ([adding,
                     ParticipantsCreate name
                       \<lparr> opt_from = callerID,
                         opt_label = ''human agent'',
                         opt_to = HUMAN_AGENT_NUMBER cfg,
                         opt_earlyMedia = False,
                         opt_callToken = callToken,
                         opt_conferenceStatusCallback = None,
                         opt_conferenceStatusCallbackEvent = [] \<rparr>],
                    dropped created))))"

text \<open>
  \<^verbatim>\<open>handleFunctionCall\<close>: the effects in order (those of \<^verbatim>\<open>addHuman\<close> before it suspends, the
  two sends, then what \<^verbatim>\<open>addHuman\<close> leaves behind), and the exception thrown, if any.
\<close>

definition handleFunctionCall ::
  "(string \<Rightarrow> url_lookup) \<Rightarrow> config \<Rightarrow> store \<Rightarrow> websocket \<Rightarrow> json \<Rightarrow> unit outcome
     \<Rightarrow> effect list \<times> js_error option" where
  "handleFunctionCall url_call_id cfg st ws output created =
     (if js_opt (Some output) ''type'' = Some (JStr ''function_call'')
         \<and> js_opt (Some output) ''name'' = Some (JStr ''addHumanAgent'')
         \<and> js_truthy (js_opt (Some output) ''call_id'')
      then
        (let sends = [WsSend keepChatting, WsSend (JObj [(''type'', JStr ''response.create'')])];
             no_id = ConsoleError [LStr ''Call ID is null, cannot add human agent.'']
         in case url_call_id (ws_uri ws) of
              InvalidURL \<Rightarrow> ([], Some (JsError ''TypeError'' ''Invalid URL''))
            | NoParam \<Rightarrow> (no_id # sends, None)
            | Param extractedCallId \<Rightarrow>
                if extractedCallId \<noteq> [] then
                  (fst (addHuman cfg st extractedCallId created) @ sends
                     @ snd (addHuman cfg st extractedCallId created), None)
                else (no_id # sends, None))
      else ([], None))"

text \<open>
  The message handler. \<open>parsed\<close> is what \<^verbatim>\<open>JSON.parse\<close> makes of the message text: a
  SyntaxError or a value. The whole body is inside \<^verbatim>\<open>try\<close>; the \<^verbatim>\<open>catch\<close> block logs the
  error and the raw message (the log record here leaves the raw bytes out). Sending on
  the socket from inside its own message handler does not throw.
\<close>

definition message_try ::
  "(string \<Rightarrow> url_lookup) \<Rightarrow> config \<Rightarrow> store \<Rightarrow> websocket \<Rightarrow> js_error + json \<Rightarrow> unit outcome
     \<Rightarrow> effect list \<times> js_error option" where
  "message_try url_call_id cfg st ws parsed created =
     (case parsed of
        Inl e \<Rightarrow> ([], Some e)
      | Inr response \<Rightarrow>
          (case js_dot (Some response) ''type'' of
             Inl e \<Rightarrow> ([], Some e)
           | Inr type \<Rightarrow>
               if type = Some (JStr ''response.done'') then
                 (case js_dot (Some response) ''response'' of
                    Inl e \<Rightarrow> ([], Some e)
                  | Inr r \<Rightarrow>
                      (case js_opt_first (js_opt r ''output'') of
                         None \<Rightarrow> ([], None)
                       | Some output \<Rightarrow>
                           if js_truthy (Some output)
                           then handleFunctionCall url_call_id cfg st ws output created
                           else ([], None)))
               else ([], None)))"

definition on_message ::
  "(string \<Rightarrow> url_lookup) \<Rightarrow> config \<Rightarrow> store \<Rightarrow> websocket \<Rightarrow> js_error + json \<Rightarrow> unit outcome
     \<Rightarrow> effect list \<times> completion" where
  "on_message url_call_id cfg st ws parsed created =
     (case message_try url_call_id cfg st ws parsed created of
        (effs, None) \<Rightarrow> (effs, Returned)
      | (effs, Some error) \<Rightarrow>
          (effs @ [ConsoleError [LStr ''Error processing OpenAI message:'', LErr error,
                                 LStr ''Raw message:'']],
           Returned))"

text \<open>
  The hand-off request in the spec's words: a \<^verbatim>\<open>response.done\<close> event whose first output item
  is a \<^verbatim>\<open>function_call\<close> named \<^verbatim>\<open>addHumanAgent\<close> that carries a \<^verbatim>\<open>call_id\<close>. To carry a
  \<^verbatim>\<open>call_id\<close> is to have one that is not \<^verbatim>\<open>null\<close>, \<^verbatim>\<open>false\<close>, zero or the empty string.
\<close>

definition first_output :: "json \<Rightarrow> json option" where
  "first_output msg = js_opt_first (js_opt (js_opt (Some msg) ''response'') ''output'')"

definition handoff_request :: "js_error + json \<Rightarrow> bool" where
  "handoff_request parsed =
     (case parsed of
        Inl e \<Rightarrow> False
      | Inr msg \<Rightarrow>
          own_prop msg ''type'' = Some (JStr ''response.done'')
          \<and> (case first_output msg of
                None \<Rightarrow> False
              | Some item \<Rightarrow>
                  own_prop item ''type'' = Some (JStr ''function_call'')
                  \<and> own_prop item ''name'' = Some (JStr ''addHumanAgent'')
                  \<and> js_truthy (own_prop item ''call_id'')))"

section \<open>Reading a run\<close>

text \<open>The responses a run sends, in order.\<close>

fun responses :: "effect list \<Rightarrow> http_response list" where
  "responses [] = []"
| "responses (Respond r # es) = r # responses es"
| "responses (e # es) = responses es"

text \<open>
  For a call id \<open>k\<close>: the assignment of its correlation entry, and the two steps that lead to
  its transport session (the accept request, and the timer that will open the socket).
\<close>

fun writes_call_id :: "string \<Rightarrow> effect \<Rightarrow> bool" where
  "writes_call_id k (WriteCallIdToConference k' v) = (k' = k)"
| "writes_call_id k _ = False"

fun starts_session :: "string \<Rightarrow> effect \<Rightarrow> bool" where
  "starts_session k (FetchAccept k' a) = (k' = k)"
| "starts_session k (SetTimeout uri d) = (uri = wssUrl k)"
| "starts_session k _ = False"

text \<open>
  An incoming-call event on which the handler reaches the accept request: the header
  scan finds \<open>found\<close> and the call id converts to the key \<open>key\<close>, neither throwing.
\<close>

definition incoming_call_event :: "json \<Rightarrow> string \<Rightarrow> json option \<Rightarrow> bool" where
  "incoming_call_event event key found =
     (js_opt (Some event) ''type'' = Some (JStr ''realtime.call.incoming'')
      \<and> foundConferenceName (js_opt (js_opt (Some event) ''data'') ''sip_headers'') = Inr found
      \<and> template (js_opt (js_opt (Some event) ''data'') ''call_id'') = Inr key)"

section \<open>The scenario of the specification\<close>

definition scenario_config :: config where
  "scenario_config =
     \<lparr>DOMAIN = ''example.ngrok.io'', OPENAI_API_KEY = ''sk-proj-1'',
      OPENAI_PROJECT_ID = ''proj_1'', HUMAN_AGENT_NUMBER = ''+15551112222''\<rparr>"

text \<open>The store at start-up.\<close>

definition empty_store :: store where
  "empty_store =
     \<lparr>callIDtoConferenceNameMapping = empty_table,
      ConferenceNametoCallerIDMapping = empty_table,
      ConferenceNametoCallTokenMapping = empty_table\<rparr>"

definition scenario_call :: "string \<Rightarrow> string option" where
  "scenario_call =
     [''CallSid'' \<mapsto> ''CA123'', ''From'' \<mapsto> ''+15551230000'', ''CallToken'' \<mapsto> ''TOK1'']"

definition scenario_event :: json where
  "scenario_event =
     JObj [(''type'', JStr ''realtime.call.incoming''),
           (''data'',
            JObj [(''call_id'', JStr ''RTC1''),
                  (''sip_headers'',
                   JArr [JObj [(''name'', JStr ''X-conferenceName''),
                               (''value'', JStr ''CA123'')]])])]"

definition scenario_message :: json where
  "scenario_message =
     JObj [(''type'', JStr ''response.done''),
           (''response'',
            JObj [(''output'',
                   JArr [JObj [(''type'', JStr ''function_call''),
                               (''name'', JStr ''addHumanAgent''),
                               (''call_id'', JStr ''fc1'')]])])]"

text \<open>The store after the intake and the accept of the scenario, and the same store
  with the call token missing.\<close>

definition scenario_store :: store where
  "scenario_store =
     \<lparr>callIDtoConferenceNameMapping = table_set empty_table ''RTC1'' (Some (JStr ''CA123'')),
      ConferenceNametoCallerIDMapping =
        table_set empty_table ''CA123'' (Some (JStr ''+15551230000'')),
      ConferenceNametoCallTokenMapping = table_set empty_table ''CA123'' (Some (JStr ''TOK1''))\<rparr>"

definition store_without_token :: store where
  "store_without_token = scenario_store\<lparr>ConferenceNametoCallTokenMapping := empty_table\<rparr>"

text \<open>
  Inputs on keys that tables inherit. An inbound call whose \<^verbatim>\<open>CallSid\<close> is \<^verbatim>\<open>__proto__\<close>; an
  incoming-call event whose call id is \<^verbatim>\<open>__proto__\<close>; and a store in which the call
  \<^verbatim>\<open>RTC1\<close> belongs to a conference named \<^verbatim>\<open>constructor\<close> that has neither caller number
  nor call token.
\<close>

definition proto_call :: "string \<Rightarrow> string option" where
  "proto_call =
     [''CallSid'' \<mapsto> ''__proto__'', ''From'' \<mapsto> ''+15551230000'', ''CallToken'' \<mapsto> ''TOK1'']"

definition proto_event :: json where
  "proto_event =
     JObj [(''type'', JStr ''realtime.call.incoming''),
           (''data'',
            JObj [(''call_id'', JStr ''__proto__''),
                  (''sip_headers'',
                   JArr [JObj [(''name'', JStr ''X-conferenceName''),
                               (''value'', JStr ''CA123'')]])])]"

definition constructor_store :: store where
  "constructor_store =
     empty_store\<lparr>callIDtoConferenceNameMapping :=
                   table_set empty_table ''RTC1'' (Some (JStr ''constructor''))\<rparr>"

text \<open>
  The error the provider's SDK throws when the signature of a webhook does not match.
  Its class extends \<^verbatim>\<open>Error\<close> and sets no name of its own.
\<close>

definition signature_mismatch :: js_error where
  "signature_mismatch =
     JsError ''Error'' ''The given webhook signature does not match the expected signature''"

text \<open>The URL parser on the one address the scenario uses.\<close>

definition scenario_url_call_id :: "string \<Rightarrow> url_lookup" where
  "scenario_url_call_id uri = (if uri = wssUrl ''RTC1'' then Param ''RTC1'' else InvalidURL)"

definition scenario_callback :: "string \<Rightarrow> string option" where
  "scenario_callback =
     [''ParticipantLabel'' \<mapsto> ''human agent'', ''StatusCallbackEvent'' \<mapsto> ''participant-join'',
      ''ConferenceSid'' \<mapsto> ''CA123'']"

definition scenario_participants :: "participant list" where
  "scenario_participants =
     [\<lparr>label = Some ''customer'', callSid = ''CA123''\<rparr>,
      \<lparr>label = Some ''virtual agent'', callSid = ''CA456''\<rparr>]"

definition not_found :: fetch_response where
  "not_found = \<lparr>resp_status = 404, resp_statusText = ''Not Found'', resp_text = Resolved ''call_not_found''\<rparr>"

definition accepted :: fetch_response where
  "accepted = \<lparr>resp_status = 200, resp_statusText = ''OK'', resp_text = Pending\<rparr>"

section \<open>Properties\<close>

subsection \<open>Dropped promises and runs\<close>

lemma dropped_no_respond: "filter is_respond (dropped out) = []"
  by (cases out) simp_all

lemma dropped_no_log: "filter is_log (dropped out) = []"
  by (cases out) simp_all

lemma dropped_no_create: "filter is_participants_create (dropped out) = []"
  by (cases out) simp_all

lemma dropped_no_send: "filter is_ws_send (dropped out) = []"
  by (cases out) simp_all

lemma precedes_without: "\<forall>e \<in> set es. \<not> Q e \<Longrightarrow> precedes P Q es"
  by (induction es) auto

lemma precedes_snoc: "precedes P Q es \<Longrightarrow> \<not> Q e \<Longrightarrow> precedes P Q (es @ [e])"
  by (induction es) auto

subsection \<open>Tables\<close>

text \<open>An assignment under any key but \<^verbatim>\<open>__proto__\<close> is read back.\<close>

lemma table_get_set:
  "k \<noteq> ''__proto__'' \<Longrightarrow> table_get (table_set t k v) k = of_parsed v"
  by (simp add: table_set_def table_get_def)

text \<open>
  On a table whose prototype is \<^verbatim>\<open>Object.prototype\<close>, a key with no own property reads as
  \<^verbatim>\<open>undefined\<close> exactly when it names no inherited member.
\<close>

lemma table_get_absent:
  assumes "own t k = None" and "proto t = ObjectProto"
  shows "table_get t k = Undefined
         \<longleftrightarrow> k \<noteq> ''__proto__'' \<and> k \<notin> set object_prototype_members"
  using assms
  by (auto simp: table_get_def from_object_prototype_def object_prototype_members_def)

subsection \<open>Call intake\<close>

text \<open>
  C1 fails as stated at the \<^verbatim>\<open>CallSid\<close> \<^verbatim>\<open>__proto__\<close>: the two assignments run, but an
  assignment of a string under that key stores nothing, and the tables read back
  \<^verbatim>\<open>Object.prototype\<close>, not the caller number and the call token.
\<close>

theorem incoming_call_proto_counterexample:
  "proto_call ''CallSid'' = Some ''__proto__''
   \<and> proto_call ''From'' = Some ''+15551230000''
   \<and> proto_call ''CallToken'' = Some ''TOK1''
   \<and> table_get (ConferenceNametoCallerIDMapping
                  (fst (incoming_call scenario_config empty_store proto_call Pending)))
        ''__proto__'' = PrototypeObject
   \<and> table_get (ConferenceNametoCallTokenMapping
                  (fst (incoming_call scenario_config empty_store proto_call Pending)))
        ''__proto__'' = PrototypeObject
   \<and> fst (incoming_call scenario_config empty_store proto_call Pending) = empty_store"
  by (simp add: incoming_call_def conferenceName_def proto_call_def empty_store_def
      empty_table_def table_set_def table_get_def reaches_proto_setter_def
      from_object_prototype_def Let_def)

text \<open>
  C1, amended. An inbound-call webhook carrying \<^verbatim>\<open>CallSid\<close>, \<^verbatim>\<open>From\<close> and \<^verbatim>\<open>CallToken\<close>: the
  conference name is the \<^verbatim>\<open>CallSid\<close>; in the handler's run both assignments happen before
  any response, and the one response is the XML document naming that conference; and
  when the \<^verbatim>\<open>CallSid\<close> is not \<^verbatim>\<open>__proto__\<close>, the store after the handler reads back the
  caller number and the call token under the conference name.
\<close>

theorem incoming_call_correlates:
  assumes "parsedBody ''CallSid'' = Some sid"
    and "parsedBody ''From'' = Some caller"
    and "parsedBody ''CallToken'' = Some tok"
  shows "conferenceName parsedBody = sid
       \<and> precedes (\<lambda>e. e = WriteConferenceToCaller sid (Some caller)) is_respond
            (snd (incoming_call cfg st parsedBody created))
       \<and> precedes (\<lambda>e. e = WriteConferenceToToken sid (Some tok)) is_respond
            (snd (incoming_call cfg st parsedBody created))
       \<and> filter is_respond (snd (incoming_call cfg st parsedBody created)) =
            [Respond \<lparr>res_status = 200, res_headers = [(''Content-Type'', ''text/xml'')],
                      res_body = twimlResponse cfg sid\<rparr>]
       \<and> (sid \<noteq> ''__proto__'' \<longrightarrow>
            table_get (ConferenceNametoCallerIDMapping
                         (fst (incoming_call cfg st parsedBody created))) sid
              = Parsed (JStr caller)
            \<and> table_get (ConferenceNametoCallTokenMapping
                           (fst (incoming_call cfg st parsedBody created))) sid
              = Parsed (JStr tok))"
  using assms
  by (simp add: incoming_call_def conferenceName_def createParticipant_def Let_def
      dropped_no_respond table_get_set)

theorem incoming_call_correlates_witness:
  "scenario_call ''CallSid'' = Some ''CA123''
   \<and> scenario_call ''From'' = Some ''+15551230000''
   \<and> scenario_call ''CallToken'' = Some ''TOK1''
   \<and> conferenceName scenario_call = ''CA123''
   \<and> ''CA123'' \<noteq> ''__proto__''
   \<and> table_get (ConferenceNametoCallerIDMapping
                  (fst (incoming_call scenario_config empty_store scenario_call Pending)))
        ''CA123'' = Parsed (JStr ''+15551230000'')
   \<and> table_get (ConferenceNametoCallTokenMapping
                  (fst (incoming_call scenario_config empty_store scenario_call Pending)))
        ''CA123'' = Parsed (JStr ''TOK1'')
   \<and> filter is_respond (snd (incoming_call scenario_config empty_store scenario_call Pending)) =
        [Respond \<lparr>res_status = 200, res_headers = [(''Content-Type'', ''text/xml'')],
                  res_body = twimlResponse scenario_config ''CA123''\<rparr>]"
proof -
  have h: "scenario_call ''CallSid'' = Some ''CA123''"
    "scenario_call ''From'' = Some ''+15551230000''"
    "scenario_call ''CallToken'' = Some ''TOK1''"
    by (simp_all add: scenario_call_def)
  show ?thesis
    using h incoming_call_correlates [OF h, of scenario_config empty_store Pending]
    by simp
qed

text \<open>
  C5 fails as stated: when the participant request fails, the run holds no log line.
  The handler neither catches nor logs the failure; the rejected promise is left unhandled.
\<close>

theorem participant_failure_logged_counterexample:
  "\<not> list_ex is_log
       (snd (incoming_call scenario_config empty_store scenario_call
               (Rejected (JsError ''RestException'' ''Authenticate''))))
   \<and> UnhandledRejection (JsError ''RestException'' ''Authenticate'')
       \<in> set (snd (incoming_call scenario_config empty_store scenario_call
                     (Rejected (JsError ''RestException'' ''Authenticate''))))"
  by (simp add: incoming_call_def Let_def createParticipant_def)

text \<open>
  C5, amended. Whatever becomes of the participant request (it succeeds, fails or never
  completes), the run is the run of the handler with the request still pending,
  followed by what the dropped promise leaves; the XML response is in the first part,
  so it does not wait for the request. No run holds a log line: a failure of the
  request is not logged by the handler.
\<close>

theorem participant_failure_not_logged:
  "snd (incoming_call cfg st parsedBody created)
     = snd (incoming_call cfg st parsedBody Pending) @ dropped created
   \<and> Respond \<lparr>res_status = 200, res_headers = [(''Content-Type'', ''text/xml'')],
              res_body = twimlResponse cfg (conferenceName parsedBody)\<rparr>
       \<in> set (snd (incoming_call cfg st parsedBody Pending))
   \<and> filter is_log (snd (incoming_call cfg st parsedBody created)) = []"
  by (simp add: incoming_call_def Let_def createParticipant_def dropped_no_log)

subsection \<open>Conference events\<close>

lemma disconnect_loop_none:
  "filter (\<lambda>p. label p = Some ''virtual agent'') ps = [] \<Longrightarrow>
   disconnect_loop updated n ps = []"
  by (induction ps arbitrary: n) (auto split: if_splits)

lemma disconnect_loop_one:
  "filter (\<lambda>p. label p = Some ''virtual agent'') ps = [p] \<Longrightarrow>
   filter is_call_update (disconnect_loop updated n ps) = [CallUpdate (callSid p) ''completed'']"
proof (induction ps arbitrary: n)
  case Nil
  then show ?case by simp
next
  case (Cons q qs)
  show ?case
  proof (cases "label q = Some ''virtual agent''")
    case True
    with Cons.prems have "q = p" and "filter (\<lambda>p. label p = Some ''virtual agent'') qs = []"
      by simp_all
    then show ?thesis using True
      by (cases "updated n") (simp_all add: disconnect_loop_none)
  next
    case False
    with Cons show ?thesis by simp
  qed
qed

text \<open>
  C4. A callback for a human agent who joined, on a conference whose listed participants
  hold exactly one labelled virtual agent: the status updates of the run are exactly one,
  to completed, for that participant's call. A callback with another label or event
  does nothing at all.
\<close>

theorem human_join_ends_virtual_agent:
  "(parsedBody ''ParticipantLabel'' = Some ''human agent''
      \<and> parsedBody ''StatusCallbackEvent'' = Some ''participant-join''
      \<and> filter (\<lambda>p. label p = Some ''virtual agent'') participants = [agent]
    \<longrightarrow> filter is_call_update (conference_events parsedBody (Resolved participants) updated)
          = [CallUpdate (callSid agent) ''completed''])
   \<and> (\<not> (parsedBody ''ParticipantLabel'' = Some ''human agent''
          \<and> parsedBody ''StatusCallbackEvent'' = Some ''participant-join'')
    \<longrightarrow> conference_events parsedBody listed updated = [])"
  by (simp add: conference_events_def findVirtualAgentandDisconnect_def disconnect_loop_one)

theorem human_join_ends_virtual_agent_witness:
  "scenario_callback ''ParticipantLabel'' = Some ''human agent''
   \<and> scenario_callback ''StatusCallbackEvent'' = Some ''participant-join''
   \<and> filter (\<lambda>p. label p = Some ''virtual agent'') scenario_participants
       = [\<lparr>label = Some ''virtual agent'', callSid = ''CA456''\<rparr>]
   \<and> filter is_call_update
       (conference_events scenario_callback (Resolved scenario_participants) (\<lambda>n. Resolved ()))
       = [CallUpdate ''CA456'' ''completed'']
   \<and> scenario_call ''ParticipantLabel'' \<noteq> Some ''human agent''
   \<and> conference_events scenario_call (Resolved scenario_participants) (\<lambda>n. Resolved ()) = []"
proof -
  have h: "scenario_callback ''ParticipantLabel'' = Some ''human agent''"
    "scenario_callback ''StatusCallbackEvent'' = Some ''participant-join''"
    "filter (\<lambda>p. label p = Some ''virtual agent'') scenario_participants
       = [\<lparr>label = Some ''virtual agent'', callSid = ''CA456''\<rparr>]"
    "scenario_call ''ParticipantLabel'' \<noteq> Some ''human agent''"
    by (simp_all add: scenario_callback_def scenario_participants_def scenario_call_def)
  show ?thesis
    using h
      human_join_ends_virtual_agent [of scenario_callback scenario_participants
        "\<lparr>label = Some ''virtual agent'', callSid = ''CA456''\<rparr>" "\<lambda>n. Resolved ()"]
      human_join_ends_virtual_agent [of scenario_call scenario_participants
        "\<lparr>label = Some ''virtual agent'', callSid = ''CA456''\<rparr>" "\<lambda>n. Resolved ()"
        "Resolved scenario_participants"]
    by simp
qed

lemma disconnect_loop_no_respond: "filter is_respond (disconnect_loop updated n ps) = []"
  by (induction ps arbitrary: n) (auto split: outcome.splits)

lemma conference_events_never_responds:
  "filter is_respond (conference_events parsedBody listed updated) = []"
  by (auto simp: conference_events_def findVirtualAgentandDisconnect_def
      disconnect_loop_no_respond split: outcome.splits)

text \<open>
  C6 asks for a 200 response to every conference status callback. The handler never
  touches the response object (lemma \<open>conference_events_never_responds\<close>); on the callback
  of the scenario the run lists the participants, ends the virtual agent's call, logs,
  and sends nothing.
\<close>

theorem conference_callback_gets_no_response:
  "conference_events scenario_callback (Resolved scenario_participants) (\<lambda>n. Resolved ())
     = [ParticipantsList (Some ''CA123'') 20, CallUpdate ''CA456'' ''completed'',
        ConsoleLog [LStr ''Virtual agent call ended.'']]
   \<and> responses
       (conference_events scenario_callback (Resolved scenario_participants) (\<lambda>n. Resolved ()))
     = []"
  by (simp add: conference_events_def findVirtualAgentandDisconnect_def scenario_callback_def
      scenario_participants_def)

subsection \<open>AI session acceptor\<close>

lemma accept_call_head:
  "\<exists>rest. fst (accept_call cfg key fetched)
            = FetchAccept key (''Bearer '' @ OPENAI_API_KEY cfg) # rest
     \<and> (\<forall>e \<in> set rest. \<forall>k. starts_session k e \<longrightarrow> k = key)"
  by (auto simp: accept_call_def connectWithDelay_def Let_def wssUrl_def split: outcome.splits)

lemma accept_call_no_write:
  "WriteCallIdToConference k v \<notin> set (fst (accept_call cfg key fetched))"
  by (auto simp: accept_call_def connectWithDelay_def Let_def split: outcome.splits)

lemma post_root_try_incoming:
  assumes "incoming_call_event event key found"
  shows "post_root_try cfg st event fetched =
           (st\<lparr>callIDtoConferenceNameMapping :=
                 table_set (callIDtoConferenceNameMapping st) key found\<rparr>,
            WriteCallIdToConference key found # fst (accept_call cfg key fetched),
            snd (accept_call cfg key fetched))"
  using assms by (simp add: incoming_call_event_def post_root_try_def)

lemma post_root_try_cases:
  "(\<exists>key found. incoming_call_event event key found)
   \<or> (\<exists>effs thrown. post_root_try cfg st event fetched = (st, effs, thrown)
         \<and> (\<forall>e \<in> set effs. is_respond e))"
proof (cases "js_opt (Some event) ''type'' = Some (JStr ''realtime.call.incoming'')")
  case False
  then show ?thesis by (simp add: post_root_try_def)
next
  case True
  show ?thesis
  proof (cases "foundConferenceName (js_opt (js_opt (Some event) ''data'') ''sip_headers'')")
    case (Inl e)
    then show ?thesis using True by (simp add: post_root_try_def)
  next
    case (Inr found)
    then show ?thesis using True
      by (cases "template (js_opt (js_opt (Some event) ''data'') ''call_id'')")
         (simp_all add: post_root_try_def incoming_call_event_def)
  qed
qed

lemma post_root_try_order:
  "precedes (writes_call_id k) (starts_session k) (fst (snd (post_root_try cfg st event fetched)))"
proof -
  consider (accept) key found where "incoming_call_event event key found"
    | (other) effs thrown where "post_root_try cfg st event fetched = (st, effs, thrown)"
        "\<forall>e \<in> set effs. is_respond e"
    using post_root_try_cases by blast
  then show ?thesis
  proof cases
    case accept
    from accept_call_head [of cfg key fetched] obtain rest where
      "fst (accept_call cfg key fetched) = FetchAccept key (''Bearer '' @ OPENAI_API_KEY cfg) # rest"
      "\<forall>e \<in> set rest. \<forall>k. starts_session k e \<longrightarrow> k = key"
      by blast
    then show ?thesis
      by (auto simp add: post_root_try_incoming [OF accept] intro!: precedes_without)
  next
    case other
    have "\<not> starts_session k e" if "is_respond e" for e
      using that by (cases e) simp_all
    with other show ?thesis by (auto intro!: precedes_without)
  qed
qed

text \<open>A run that holds the assignment for \<open>k\<close> ends with the table assigned under \<open>k\<close>.\<close>

lemma post_root_written:
  assumes "WriteCallIdToConference k v \<in> set (snd (post_root cfg st unwrapped fetched))"
  shows "callIDtoConferenceNameMapping (fst (post_root cfg st unwrapped fetched))
           = table_set (callIDtoConferenceNameMapping st) k v"
proof (cases unwrapped)
  case (Resolved event)
  consider (accept) key found where "incoming_call_event event key found"
    | (other) effs thrown where "post_root_try cfg st event fetched = (st, effs, thrown)"
        "\<forall>e \<in> set effs. is_respond e"
    using post_root_try_cases by blast
  then show ?thesis
  proof cases
    case accept
    have "k = key \<and> v = found"
      using assms Resolved accept_call_no_write [of k v cfg key fetched]
      by (cases "snd (accept_call cfg key fetched)")
         (auto simp: post_root_def post_root_try_incoming [OF accept])
    then show ?thesis using Resolved
      by (cases "snd (accept_call cfg key fetched)")
         (simp_all add: post_root_def post_root_try_incoming [OF accept])
  next
    case other
    then have "\<forall>e \<in> set (snd (post_root cfg st unwrapped fetched)). is_respond e"
      using Resolved by (cases thrown) (simp_all add: post_root_def)
    with assms show ?thesis by fastforce
  qed
qed (use assms in \<open>simp_all add: post_root_def\<close>)

text \<open>
  C3 fails as stated at the call id \<^verbatim>\<open>__proto__\<close>: the assignment runs before the accept
  request and the timer, but it stores nothing, and the table reads back
  \<^verbatim>\<open>Object.prototype\<close>, not the conference name the event carried.
\<close>

theorem correlation_proto_counterexample:
  "snd (post_root scenario_config empty_store (Resolved proto_event) (Resolved accepted))
     = [WriteCallIdToConference ''__proto__'' (Some (JStr ''CA123'')),
        FetchAccept ''__proto__'' ''Bearer sk-proj-1'',
        SetTimeout (wssUrl ''__proto__'') 0,
        Respond \<lparr>res_status = 200, res_headers = [(''Authorization'', ''Bearer sk-proj-1'')],
                 res_body = ''OK''\<rparr>]
   \<and> table_get
        (callIDtoConferenceNameMapping
           (fst (post_root scenario_config empty_store (Resolved proto_event) (Resolved accepted))))
        ''__proto__'' = PrototypeObject
   \<and> fst (post_root scenario_config empty_store (Resolved proto_event) (Resolved accepted))
       = empty_store"
  by (simp add: post_root_def post_root_try_def proto_event_def foundConferenceName_def
      accept_call_def connectWithDelay_def resp_ok_def accepted_def scenario_config_def
      empty_store_def empty_table_def table_set_def table_get_def reaches_proto_setter_def
      from_object_prototype_def)

text \<open>
  C3, amended. In every run of the handler, for every call id: neither the accept request
  for that call id nor the timer that will open its transport session happens until the
  assignment of its correlation entry has; and for every call id but \<^verbatim>\<open>__proto__\<close>, the
  value assigned is the one the store reads back when the handler is done. The session
  is opened only by that timer.
\<close>

theorem correlation_written_before_session:
  "precedes (writes_call_id k) (starts_session k) (snd (post_root cfg st unwrapped fetched))
   \<and> (k \<noteq> ''__proto__'' \<longrightarrow>
        (\<forall>v. WriteCallIdToConference k v \<in> set (snd (post_root cfg st unwrapped fetched)) \<longrightarrow>
          table_get (callIDtoConferenceNameMapping (fst (post_root cfg st unwrapped fetched))) k
            = of_parsed v))"
proof
  show "precedes (writes_call_id k) (starts_session k) (snd (post_root cfg st unwrapped fetched))"
  proof (cases unwrapped)
    case (Resolved event)
    obtain st' effs thrown where t: "post_root_try cfg st event fetched = (st', effs, thrown)"
      by (cases "post_root_try cfg st event fetched") auto
    with post_root_try_order [of k cfg st event fetched]
    have "precedes (writes_call_id k) (starts_session k) effs"
      by simp
    then show ?thesis using Resolved t
      by (cases thrown) (simp_all add: post_root_def precedes_snoc)
  qed (simp_all add: post_root_def)
next
  show "k \<noteq> ''__proto__'' \<longrightarrow>
        (\<forall>v. WriteCallIdToConference k v \<in> set (snd (post_root cfg st unwrapped fetched)) \<longrightarrow>
          table_get (callIDtoConferenceNameMapping (fst (post_root cfg st unwrapped fetched))) k
            = of_parsed v)"
    by (simp add: post_root_written table_get_set)
qed

lemma scenario_event_incoming:
  "incoming_call_event scenario_event ''RTC1'' (Some (JStr ''CA123''))"
  by (simp add: incoming_call_event_def scenario_event_def foundConferenceName_def)

theorem correlation_written_before_session_witness:
  "snd (post_root scenario_config empty_store (Resolved scenario_event) (Resolved accepted))
     = [WriteCallIdToConference ''RTC1'' (Some (JStr ''CA123'')),
        FetchAccept ''RTC1'' ''Bearer sk-proj-1'',
        SetTimeout (wssUrl ''RTC1'') 0,
        Respond \<lparr>res_status = 200, res_headers = [(''Authorization'', ''Bearer sk-proj-1'')],
                 res_body = ''OK''\<rparr>]
   \<and> precedes (writes_call_id ''RTC1'') (starts_session ''RTC1'')
       (snd (post_root scenario_config empty_store (Resolved scenario_event) (Resolved accepted)))
   \<and> ''RTC1'' \<noteq> ''__proto__''
   \<and> table_get
       (callIDtoConferenceNameMapping
          (fst (post_root scenario_config empty_store (Resolved scenario_event)
                  (Resolved accepted))))
       ''RTC1'' = Parsed (JStr ''CA123'')"
proof -
  have run:
    "snd (post_root scenario_config empty_store (Resolved scenario_event) (Resolved accepted))
     = [WriteCallIdToConference ''RTC1'' (Some (JStr ''CA123'')),
        FetchAccept ''RTC1'' ''Bearer sk-proj-1'',
        SetTimeout (wssUrl ''RTC1'') 0,
        Respond \<lparr>res_status = 200, res_headers = [(''Authorization'', ''Bearer sk-proj-1'')],
                 res_body = ''OK''\<rparr>]"
    by (simp add: post_root_def post_root_try_incoming [OF scenario_event_incoming]
        accept_call_def connectWithDelay_def resp_ok_def accepted_def scenario_config_def)
  show ?thesis
    using run
      correlation_written_before_session [of "''RTC1''" scenario_config empty_store
        "Resolved scenario_event" "Resolved accepted"]
    by simp
qed

text \<open>
  C7 asks for 400 when signature verification fails. The \<^verbatim>\<open>catch\<close> block answers 400 only
  to an error named \<^verbatim>\<open>InvalidWebhookSignatureError\<close> or whose message holds
  \<^verbatim>\<open>invalid signature\<close>; the error the SDK throws on a signature that does not match is
  neither, and the handler answers 500.
\<close>

theorem signature_mismatch_answers_500:
  "post_root scenario_config empty_store (Rejected signature_mismatch) Pending =
     (empty_store,
      [Respond \<lparr>res_status = 500, res_headers = [], res_body = ''Server error''\<rparr>])"
  by (simp add: post_root_def catch_response_def signature_mismatch_def toLowerCase_def
      lower_char_def)

text \<open>
  The other statuses of \<^verbatim>\<open>POST /\<close>. An error that passes the test of the \<^verbatim>\<open>catch\<close> block by
  its name is answered 400 with nothing else done. When the accept request comes back
  with a status outside 200..299 and its body has been read, the handler logs status,
  status text and body and then answers 500. When the accept request comes back with a
  status in 200..299, and when the event is of another type, it answers 200.
\<close>

lemma post_root_statuses:
  "(err_name e = ''InvalidWebhookSignatureError'' \<longrightarrow>
      post_root cfg st (Rejected e) fetched =
        (st, [Respond \<lparr>res_status = 400, res_headers = [], res_body = ''Invalid signature''\<rparr>]))
   \<and> (incoming_call_event event key found \<and> \<not> resp_ok resp \<and> resp_text resp \<noteq> Pending \<longrightarrow>
      snd (post_root cfg st (Resolved event) (Resolved resp)) =
        [WriteCallIdToConference key found,
         FetchAccept key (''Bearer '' @ OPENAI_API_KEY cfg),
         ConsoleError [LStr ''ACCEPT failed:'', LNum (resp_status resp),
                       LStr (resp_statusText resp),
                       LStr (case resp_text resp of Resolved text \<Rightarrow> text | _ \<Rightarrow> [])],
         Respond \<lparr>res_status = 500, res_headers = [], res_body = ''Accept failed''\<rparr>])
   \<and> (incoming_call_event event key found \<and> resp_ok resp \<longrightarrow>
      map res_status (responses (snd (post_root cfg st (Resolved event) (Resolved resp)))) = [200])
   \<and> (js_opt (Some other) ''type'' \<noteq> Some (JStr ''realtime.call.incoming'') \<longrightarrow>
      post_root cfg st (Resolved other) fetched =
        (st, [Respond \<lparr>res_status = 200, res_headers = [], res_body = ''OK''\<rparr>]))"
proof (intro conjI impI)
  assume "err_name e = ''InvalidWebhookSignatureError''"
  then show "post_root cfg st (Rejected e) fetched =
        (st, [Respond \<lparr>res_status = 400, res_headers = [], res_body = ''Invalid signature''\<rparr>])"
    by (simp add: post_root_def catch_response_def)
next
  assume a: "incoming_call_event event key found \<and> \<not> resp_ok resp \<and> resp_text resp \<noteq> Pending"
  then have i: "incoming_call_event event key found" by simp
  show "snd (post_root cfg st (Resolved event) (Resolved resp)) =
        [WriteCallIdToConference key found,
         FetchAccept key (''Bearer '' @ OPENAI_API_KEY cfg),
         ConsoleError [LStr ''ACCEPT failed:'', LNum (resp_status resp),
                       LStr (resp_statusText resp),
                       LStr (case resp_text resp of Resolved text \<Rightarrow> text | _ \<Rightarrow> [])],
         Respond \<lparr>res_status = 500, res_headers = [], res_body = ''Accept failed''\<rparr>]"
    using a
    by (cases "resp_text resp")
       (simp_all add: post_root_def post_root_try_incoming [OF i] accept_call_def)
next
  assume a: "incoming_call_event event key found \<and> resp_ok resp"
  then have i: "incoming_call_event event key found" by simp
  show "map res_status (responses (snd (post_root cfg st (Resolved event) (Resolved resp)))) = [200]"
    using a
    by (simp add: post_root_def post_root_try_incoming [OF i] accept_call_def connectWithDelay_def)
next
  assume "js_opt (Some other) ''type'' \<noteq> Some (JStr ''realtime.call.incoming'')"
  then show "post_root cfg st (Resolved other) fetched =
        (st, [Respond \<lparr>res_status = 200, res_headers = [], res_body = ''OK''\<rparr>])"
    by (simp add: post_root_def post_root_try_def)
qed

text \<open>
  C9. An incoming-call event whose accept request comes back with a success status: the
  run is the write, the accept request, the timer and one response, with status 200 and
  an \<^verbatim>\<open>Authorization\<close> header holding \<^verbatim>\<open>Bearer\<close> and the API key.
\<close>

theorem accept_ack_carries_api_key:
  assumes "incoming_call_event event key found"
    and "resp_ok resp"
  shows "snd (post_root cfg st (Resolved event) (Resolved resp)) =
           [WriteCallIdToConference key found,
            FetchAccept key (''Bearer '' @ OPENAI_API_KEY cfg),
            SetTimeout (wssUrl key) 0,
            Respond \<lparr>res_status = 200,
                     res_headers = [(''Authorization'', ''Bearer '' @ OPENAI_API_KEY cfg)],
                     res_body = ''OK''\<rparr>]"
  using assms(2)
  by (simp add: post_root_def post_root_try_incoming [OF assms(1)] accept_call_def
      connectWithDelay_def)

theorem accept_ack_carries_api_key_witness:
  "incoming_call_event scenario_event ''RTC1'' (Some (JStr ''CA123''))
   \<and> resp_ok accepted
   \<and> responses (snd (post_root scenario_config empty_store (Resolved scenario_event)
                       (Resolved accepted))) =
       [\<lparr>res_status = 200, res_headers = [(''Authorization'', ''Bearer sk-proj-1'')],
         res_body = ''OK''\<rparr>]"
proof -
  have h: "resp_ok accepted" by (simp add: resp_ok_def accepted_def)
  show ?thesis
    using h scenario_event_incoming
      accept_ack_carries_api_key [OF scenario_event_incoming h, of scenario_config empty_store]
    by (simp add: scenario_config_def)
qed

subsection \<open>Realtime messages and hand-off\<close>

lemma own_prop_object: "own_prop v p = Some x \<Longrightarrow> \<exists>kvs. v = JObj kvs"
  by (cases v) simp_all

lemma js_opt_not_null: "v \<noteq> JNull \<Longrightarrow> js_opt (Some v) p = own_prop v p"
  by (cases v) simp_all

lemma js_dot_not_null: "v \<noteq> JNull \<Longrightarrow> js_dot (Some v) p = Inr (own_prop v p)"
  by (cases v) simp_all

text \<open>On a hand-off request the handler reaches \<^verbatim>\<open>handleFunctionCall\<close> with the first
  output item, and the test there succeeds.\<close>

lemma message_try_handoff:
  assumes "handoff_request (Inr msg)"
  shows "\<exists>item. first_output msg = Some item
           \<and> js_opt (Some item) ''type'' = Some (JStr ''function_call'')
           \<and> js_opt (Some item) ''name'' = Some (JStr ''addHumanAgent'')
           \<and> js_truthy (js_opt (Some item) ''call_id'')
           \<and> message_try u cfg st ws (Inr msg) created
               = handleFunctionCall u cfg st ws item created"
proof -
  from assms obtain item where ty: "own_prop msg ''type'' = Some (JStr ''response.done'')"
    and fo: "first_output msg = Some item"
    and it: "own_prop item ''type'' = Some (JStr ''function_call'')"
       "own_prop item ''name'' = Some (JStr ''addHumanAgent'')"
       "js_truthy (own_prop item ''call_id'')"
    by (auto simp: handoff_request_def split: option.splits)
  from ty obtain kvs where msg: "msg = JObj kvs" using own_prop_object by blast
  from it(1) obtain ivs where item: "item = JObj ivs" using own_prop_object by blast
  have "message_try u cfg st ws (Inr msg) created = handleFunctionCall u cfg st ws item created"
    using ty fo unfolding msg item
    by (simp add: message_try_def first_output_def)
  with fo it show ?thesis unfolding item by auto
qed

text \<open>On anything else the \<^verbatim>\<open>try\<close> block has no effect at all.\<close>

lemma message_try_other:
  assumes "\<not> handoff_request parsed"
  shows "fst (message_try u cfg st ws parsed created) = []"
proof (cases parsed)
  case (Inl e)
  then show ?thesis by (simp add: message_try_def)
next
  case (Inr msg)
  show ?thesis
  proof (cases "msg = JNull")
    case True
    then show ?thesis using Inr by (simp add: message_try_def)
  next
    case False
    then have d: "\<And>p. js_dot (Some msg) p = Inr (own_prop msg p)"
      and o: "\<And>p. js_opt (Some msg) p = own_prop msg p"
      by (simp_all add: js_dot_not_null js_opt_not_null)
    show ?thesis
    proof (cases "own_prop msg ''type'' = Some (JStr ''response.done'')")
      case False
      then show ?thesis using Inr d by (simp add: message_try_def)
    next
      case rd: True
      show ?thesis
      proof (cases "first_output msg")
        case None
        then show ?thesis using Inr d o rd by (simp add: message_try_def first_output_def)
      next
        case (Some item)
        show ?thesis
        proof (cases "item = JNull")
          case True
          then show ?thesis using Inr d o rd Some
            by (simp add: message_try_def first_output_def)
        next
          case False
          then have "\<And>p. js_opt (Some item) p = own_prop item p"
            by (simp add: js_opt_not_null)
          moreover have "\<not> (own_prop item ''type'' = Some (JStr ''function_call'')
                  \<and> own_prop item ''name'' = Some (JStr ''addHumanAgent'')
                  \<and> js_truthy (own_prop item ''call_id''))"
            using assms Inr rd Some by (simp add: handoff_request_def)
          ultimately show ?thesis using Inr d o rd Some
            by (auto simp add: message_try_def first_output_def handleFunctionCall_def)
        qed
      qed
    qed
  qed
qed

lemma on_message_returns: "snd (on_message u cfg st ws parsed created) = Returned"
  by (simp add: on_message_def split: prod.splits option.splits)

lemma on_message_effects:
  "fst (on_message u cfg st ws parsed created) =
     fst (message_try u cfg st ws parsed created) @
     (case snd (message_try u cfg st ws parsed created) of
        None \<Rightarrow> []
      | Some error \<Rightarrow> [ConsoleError [LStr ''Error processing OpenAI message:'', LErr error,
                                 LStr ''Raw message:'']])"
  by (simp add: on_message_def split: prod.splits option.splits)

lemma addHuman_no_send:
  "filter is_ws_send (fst (addHuman cfg st cid created)) = []"
  "filter is_ws_send (snd (addHuman cfg st cid created)) = []"
  by (auto simp: addHuman_def Let_def dropped_no_send split: sum.splits)

lemma addHuman_falsy:
  assumes "\<not> jsval_truthy (table_get (callIDtoConferenceNameMapping st) cid)"
  shows "addHuman cfg st cid created =
           ([ConsoleError [LStr ''Conference name is undefined for call ID:'', LStr cid]], [])"
  using assms by (simp add: addHuman_def)

lemma addHuman_undefined:
  assumes "jsval_to_string (table_get (callIDtoConferenceNameMapping st) cid) = Inr key"
    and "table_get (ConferenceNametoCallerIDMapping st) key = Undefined
         \<or> table_get (ConferenceNametoCallTokenMapping st) key = Undefined"
  shows "filter is_participants_create (fst (addHuman cfg st cid created)) = []"
    and "filter is_participants_create (snd (addHuman cfg st cid created)) = []"
  using assms by (auto simp: addHuman_def Let_def dropped_no_create)

text \<open>On a hand-off request, on a session whose address holds the call id \<open>cid\<close>, the run
  of the handler is the run of \<^verbatim>\<open>addHuman\<close> with the two sends in the middle.\<close>

lemma on_message_handoff:
  assumes "handoff_request parsed"
    and "url_call_id (ws_uri ws) = Param cid"
    and "cid \<noteq> []"
  shows "fst (on_message url_call_id cfg st ws parsed created) =
           fst (addHuman cfg st cid created)
           @ [WsSend keepChatting, WsSend (JObj [(''type'', JStr ''response.create'')])]
           @ snd (addHuman cfg st cid created)"
proof -
  from assms(1) obtain msg where p: "parsed = Inr msg"
    by (cases parsed) (simp_all add: handoff_request_def)
  from message_try_handoff [of msg url_call_id cfg st ws created] assms(1) p
  obtain item where
    m: "message_try url_call_id cfg st ws parsed created
          = handleFunctionCall url_call_id cfg st ws item created"
    and t: "js_opt (Some item) ''type'' = Some (JStr ''function_call'')"
       "js_opt (Some item) ''name'' = Some (JStr ''addHumanAgent'')"
       "js_truthy (js_opt (Some item) ''call_id'')"
    by auto
  show ?thesis
    using t assms(2,3) by (simp add: on_message_effects m handleFunctionCall_def Let_def)
qed

lemma on_message_handoff_no_id:
  assumes "handoff_request parsed"
    and "url_call_id (ws_uri ws) = Param []"
  shows "fst (on_message url_call_id cfg st ws parsed created) =
           [ConsoleError [LStr ''Call ID is null, cannot add human agent.''],
            WsSend keepChatting, WsSend (JObj [(''type'', JStr ''response.create'')])]"
proof -
  from assms(1) obtain msg where p: "parsed = Inr msg"
    by (cases parsed) (simp_all add: handoff_request_def)
  from message_try_handoff [of msg url_call_id cfg st ws created] assms(1) p
  obtain item where
    m: "message_try url_call_id cfg st ws parsed created
          = handleFunctionCall url_call_id cfg st ws item created"
    and t: "js_opt (Some item) ''type'' = Some (JStr ''function_call'')"
       "js_opt (Some item) ''name'' = Some (JStr ''addHumanAgent'')"
       "js_truthy (js_opt (Some item) ''call_id'')"
    by auto
  show ?thesis
    using t assms(2) by (simp add: on_message_effects m handleFunctionCall_def Let_def)
qed

lemma scenario_message_handoff: "handoff_request (Inr scenario_message)"
  by (simp add: handoff_request_def scenario_message_def first_output_def)

text \<open>
  C2 fails as stated on a conference named \<^verbatim>\<open>constructor\<close>: the store has neither caller
  number nor call token for it, yet the two reads give the inherited function, the
  \<^verbatim>\<open>??\<close> guards let it through, and the participant request is made.
\<close>

theorem handoff_constructor_counterexample:
  "handoff_request (Inr scenario_message)
   \<and> scenario_url_call_id (ws_uri (WebSocket (wssUrl ''RTC1''))) = Param ''RTC1''
   \<and> table_get (callIDtoConferenceNameMapping constructor_store) ''RTC1''
       = Parsed (JStr ''constructor'')
   \<and> own (ConferenceNametoCallerIDMapping constructor_store) ''constructor'' = None
   \<and> own (ConferenceNametoCallTokenMapping constructor_store) ''constructor'' = None
   \<and> filter is_participants_create
        (fst (on_message scenario_url_call_id scenario_config constructor_store
                (WebSocket (wssUrl ''RTC1'')) (Inr scenario_message) Pending))
       = [ParticipantsCreate (Parsed (JStr ''constructor''))
            \<lparr> opt_from = NativeFunction ''Object'',
              opt_label = ''human agent'',
              opt_to = ''+15551112222'',
              opt_earlyMedia = False,
              opt_callToken = NativeFunction ''Object'',
              opt_conferenceStatusCallback = None,
              opt_conferenceStatusCallbackEvent = [] \<rparr>]"
proof -
  have u: "scenario_url_call_id (ws_uri (WebSocket (wssUrl ''RTC1''))) = Param ''RTC1''"
    by (simp add: scenario_url_call_id_def)
  have n: "''RTC1'' \<noteq> []" by simp
  note run = on_message_handoff [where url_call_id = scenario_url_call_id
      and ws = "WebSocket (wssUrl ''RTC1'')" and parsed = "Inr scenario_message"
      and cid = "''RTC1''", OF scenario_message_handoff u n]
  have a: "addHuman scenario_config constructor_store ''RTC1'' Pending =
      ([ConsoleLog [LStr ''Adding human to conference:'', LVal (Parsed (JStr ''constructor''))],
        ParticipantsCreate (Parsed (JStr ''constructor''))
            \<lparr> opt_from = NativeFunction ''Object'',
              opt_label = ''human agent'',
              opt_to = ''+15551112222'',
              opt_earlyMedia = False,
              opt_callToken = NativeFunction ''Object'',
              opt_conferenceStatusCallback = None,
              opt_conferenceStatusCallbackEvent = [] \<rparr>], [])"
    by (simp add: addHuman_def Let_def constructor_store_def empty_store_def empty_table_def
        table_set_def table_get_def from_object_prototype_def scenario_config_def)
  have s: "table_get (callIDtoConferenceNameMapping constructor_store) ''RTC1''
       = Parsed (JStr ''constructor'')"
    "own (ConferenceNametoCallerIDMapping constructor_store) ''constructor'' = None"
    "own (ConferenceNametoCallTokenMapping constructor_store) ''constructor'' = None"
    by (simp_all add: constructor_store_def empty_store_def empty_table_def table_set_def
        table_get_def)
  show ?thesis
    using u s scenario_message_handoff
    by (simp add: run a)
qed

text \<open>
  C2, amended. A hand-off request arrives on the session of call id \<open>cid\<close>. If the read of
  the conference name for \<open>cid\<close> gives \<^verbatim>\<open>undefined\<close> or another falsy value, the run of the
  message handler holds no \<^verbatim>\<open>participants.create\<close> call and no rejected promise: the
  orchestrator logs and returns. If the read gives a name and the read of the caller
  number or of the call token under that name gives \<^verbatim>\<open>undefined\<close>, the run holds no
  \<^verbatim>\<open>participants.create\<close> call. A key without an entry reads as \<^verbatim>\<open>undefined\<close> exactly when
  it names no member the table inherits (lemma \<open>table_get_absent\<close>).
\<close>

theorem handoff_aborts_without_entries:
  assumes "handoff_request parsed"
    and "url_call_id (ws_uri ws) = Param cid"
  shows "(\<not> jsval_truthy (table_get (callIDtoConferenceNameMapping st) cid) \<longrightarrow>
            filter is_participants_create
              (fst (on_message url_call_id cfg st ws parsed created)) = []
            \<and> filter is_unhandled_rejection
                (fst (on_message url_call_id cfg st ws parsed created)) = [])
       \<and> (\<forall>key. jsval_to_string (table_get (callIDtoConferenceNameMapping st) cid) = Inr key
                 \<and> (table_get (ConferenceNametoCallerIDMapping st) key = Undefined
                     \<or> table_get (ConferenceNametoCallTokenMapping st) key = Undefined) \<longrightarrow>
            filter is_participants_create
              (fst (on_message url_call_id cfg st ws parsed created)) = [])"
proof (cases "cid = []")
  case True
  with assms show ?thesis by (simp add: on_message_handoff_no_id)
next
  case False
  note run = on_message_handoff [where url_call_id = url_call_id and ws = ws
      and parsed = parsed and cid = cid and cfg = cfg and st = st and created = created,
      OF assms False]
  show ?thesis
  proof (intro conjI impI allI)
    assume "\<not> jsval_truthy (table_get (callIDtoConferenceNameMapping st) cid)"
    then have a: "addHuman cfg st cid created =
           ([ConsoleError [LStr ''Conference name is undefined for call ID:'', LStr cid]], [])"
      by (rule addHuman_falsy)
    show "filter is_participants_create
            (fst (on_message url_call_id cfg st ws parsed created)) = []"
      by (simp add: run a)
    show "filter is_unhandled_rejection
            (fst (on_message url_call_id cfg st ws parsed created)) = []"
      by (simp add: run a)
  next
    fix key
    assume "jsval_to_string (table_get (callIDtoConferenceNameMapping st) cid) = Inr key
                 \<and> (table_get (ConferenceNametoCallerIDMapping st) key = Undefined
                     \<or> table_get (ConferenceNametoCallTokenMapping st) key = Undefined)"
    then have "filter is_participants_create (fst (addHuman cfg st cid created)) = []"
      "filter is_participants_create (snd (addHuman cfg st cid created)) = []"
      using addHuman_undefined [of st cid key cfg created] by blast+
    then show "filter is_participants_create
            (fst (on_message url_call_id cfg st ws parsed created)) = []"
      by (simp add: run)
  qed
qed

theorem handoff_aborts_without_entries_witness:
  "handoff_request (Inr scenario_message)
   \<and> scenario_url_call_id (ws_uri (WebSocket (wssUrl ''RTC1''))) = Param ''RTC1''
   \<and> \<not> jsval_truthy (table_get (callIDtoConferenceNameMapping empty_store) ''RTC1'')
   \<and> fst (on_message scenario_url_call_id scenario_config empty_store
             (WebSocket (wssUrl ''RTC1'')) (Inr scenario_message) Pending)
       = [ConsoleError [LStr ''Conference name is undefined for call ID:'', LStr ''RTC1''],
          WsSend keepChatting, WsSend (JObj [(''type'', JStr ''response.create'')])]
   \<and> filter is_participants_create
        (fst (on_message scenario_url_call_id scenario_config empty_store
                (WebSocket (wssUrl ''RTC1'')) (Inr scenario_message) Pending)) = []
   \<and> filter is_unhandled_rejection
        (fst (on_message scenario_url_call_id scenario_config empty_store
                (WebSocket (wssUrl ''RTC1'')) (Inr scenario_message) Pending)) = []
   \<and> jsval_to_string (table_get (callIDtoConferenceNameMapping store_without_token) ''RTC1'')
       = Inr ''CA123''
   \<and> table_get (ConferenceNametoCallTokenMapping store_without_token) ''CA123'' = Undefined
   \<and> filter is_participants_create
        (fst (on_message scenario_url_call_id scenario_config store_without_token
                (WebSocket (wssUrl ''RTC1'')) (Inr scenario_message) Pending)) = []"
proof -
  have u: "scenario_url_call_id (ws_uri (WebSocket (wssUrl ''RTC1''))) = Param ''RTC1''"
    by (simp add: scenario_url_call_id_def)
  have e: "\<not> jsval_truthy (table_get (callIDtoConferenceNameMapping empty_store) ''RTC1'')"
    by (simp add: empty_store_def empty_table_def table_get_def from_object_prototype_def
        object_prototype_members_def)
  have t: "jsval_to_string (table_get (callIDtoConferenceNameMapping store_without_token) ''RTC1'')
       = Inr ''CA123''"
    "table_get (ConferenceNametoCallTokenMapping store_without_token) ''CA123'' = Undefined"
    by (simp_all add: store_without_token_def scenario_store_def empty_table_def table_set_def
        table_get_def from_object_prototype_def object_prototype_members_def)
  have n: "''RTC1'' \<noteq> []" by simp
  have run: "fst (on_message scenario_url_call_id scenario_config empty_store
             (WebSocket (wssUrl ''RTC1'')) (Inr scenario_message) Pending)
       = [ConsoleError [LStr ''Conference name is undefined for call ID:'', LStr ''RTC1''],
          WsSend keepChatting, WsSend (JObj [(''type'', JStr ''response.create'')])]"
    using e
    by (simp add: on_message_handoff [where url_call_id = scenario_url_call_id
          and ws = "WebSocket (wssUrl ''RTC1'')" and parsed = "Inr scenario_message"
          and cid = "''RTC1''", OF scenario_message_handoff u n] addHuman_falsy)
  have first: "filter is_participants_create
        (fst (on_message scenario_url_call_id scenario_config empty_store
                (WebSocket (wssUrl ''RTC1'')) (Inr scenario_message) Pending)) = []
   \<and> filter is_unhandled_rejection
        (fst (on_message scenario_url_call_id scenario_config empty_store
                (WebSocket (wssUrl ''RTC1'')) (Inr scenario_message) Pending)) = []"
    using e
      handoff_aborts_without_entries [where parsed = "Inr scenario_message"
        and url_call_id = scenario_url_call_id and ws = "WebSocket (wssUrl ''RTC1'')"
        and cid = "''RTC1''" and st = empty_store and cfg = scenario_config
        and created = Pending, OF scenario_message_handoff u]
    by blast
  have second: "filter is_participants_create
        (fst (on_message scenario_url_call_id scenario_config store_without_token
                (WebSocket (wssUrl ''RTC1'')) (Inr scenario_message) Pending)) = []"
    using t
      handoff_aborts_without_entries [where parsed = "Inr scenario_message"
        and url_call_id = scenario_url_call_id and ws = "WebSocket (wssUrl ''RTC1'')"
        and cid = "''RTC1''" and st = store_without_token and cfg = scenario_config
        and created = Pending, OF scenario_message_handoff u]
    by blast
  show ?thesis
    using u e t run first second scenario_message_handoff by simp
qed

text \<open>
  C8. The message handler always returns normally, and nothing in the program closes
  the socket. A message that does not parse leaves one error log line. A message that is
  not a hand-off request leaves log lines only: no send, no provider call. So whatever
  run holds anything but log lines is the run of a hand-off request.
\<close>

theorem only_handoff_requests_act:
  "snd (on_message url_call_id cfg st ws parsed created) = Returned
   \<and> (\<forall>e. parsed = Inl e \<longrightarrow>
          fst (on_message url_call_id cfg st ws parsed created) =
            [ConsoleError [LStr ''Error processing OpenAI message:'', LErr e, LStr ''Raw message:'']])
   \<and> (\<not> handoff_request parsed \<longrightarrow>
          list_all is_log (fst (on_message url_call_id cfg st ws parsed created)))"
proof -
  have "list_all is_log (fst (on_message url_call_id cfg st ws parsed created))"
    if "\<not> handoff_request parsed"
    using message_try_other [OF that, of url_call_id cfg st ws created]
    by (simp add: on_message_effects split: option.splits)
  moreover have "fst (on_message url_call_id cfg st ws (Inl e) created) =
      [ConsoleError [LStr ''Error processing OpenAI message:'', LErr e, LStr ''Raw message:'']]"
    for e
    by (simp add: on_message_def message_try_def)
  ultimately show ?thesis by (auto simp: on_message_returns)
qed

theorem only_handoff_requests_act_witness:
  "\<not> handoff_request (Inl (JsError ''SyntaxError'' ''Unexpected end of JSON input''))
   \<and> on_message scenario_url_call_id scenario_config scenario_store
        (WebSocket (wssUrl ''RTC1''))
        (Inl (JsError ''SyntaxError'' ''Unexpected end of JSON input'')) Pending =
       ([ConsoleError [LStr ''Error processing OpenAI message:'',
                       LErr (JsError ''SyntaxError'' ''Unexpected end of JSON input''),
                       LStr ''Raw message:'']], Returned)
   \<and> \<not> handoff_request (Inr scenario_event)
   \<and> list_all is_log
        (fst (on_message scenario_url_call_id scenario_config scenario_store
                (WebSocket (wssUrl ''RTC1'')) (Inr scenario_event) Pending))"
proof -
  have h: "\<not> handoff_request (Inl (JsError ''SyntaxError'' ''Unexpected end of JSON input''))"
    "\<not> handoff_request (Inr scenario_event)"
    by (simp_all add: handoff_request_def scenario_event_def)
  show ?thesis
    using h
      only_handoff_requests_act [of scenario_url_call_id scenario_config scenario_store
        "WebSocket (wssUrl ''RTC1'')"
        "Inl (JsError ''SyntaxError'' ''Unexpected end of JSON input'')" Pending]
      only_handoff_requests_act [of scenario_url_call_id scenario_config scenario_store
        "WebSocket (wssUrl ''RTC1'')" "Inr scenario_event" Pending]
    by (simp add: prod_eq_iff)
qed

text \<open>
  C10. On a socket that was opened, every hand-off request makes the handler send the
  keep-chatting message and then the empty \<^verbatim>\<open>response.create\<close>, and nothing else, on the
  socket: whether the URL yields a call id or not, whatever the store holds, whatever
  becomes of the participant request.
\<close>

theorem engagement_always_sent:
  assumes "websocketTask url_call_id uri = (opened, Some ws)"
    and "handoff_request parsed"
  shows "filter is_ws_send (fst (on_message url_call_id cfg st ws parsed created)) =
           [WsSend keepChatting, WsSend (JObj [(''type'', JStr ''response.create'')])]"
proof -
  from assms(1) have valid: "url_call_id (ws_uri ws) \<noteq> InvalidURL"
    by (auto simp: websocketTask_def split: if_splits)
  from assms(2) obtain msg where p: "parsed = Inr msg"
    by (cases parsed) (simp_all add: handoff_request_def)
  from message_try_handoff [of msg url_call_id cfg st ws created] assms(2) p
  obtain item where
    m: "message_try url_call_id cfg st ws parsed created
          = handleFunctionCall url_call_id cfg st ws item created"
    and t: "js_opt (Some item) ''type'' = Some (JStr ''function_call'')"
       "js_opt (Some item) ''name'' = Some (JStr ''addHumanAgent'')"
       "js_truthy (js_opt (Some item) ''call_id'')"
    by auto
  have "filter is_ws_send (fst (handleFunctionCall url_call_id cfg st ws item created)) =
           [WsSend keepChatting, WsSend (JObj [(''type'', JStr ''response.create'')])]
        \<and> snd (handleFunctionCall url_call_id cfg st ws item created) = None"
    using valid t
    by (cases "url_call_id (ws_uri ws)")
       (simp_all add: handleFunctionCall_def Let_def addHuman_no_send)
  then show ?thesis
    by (simp add: on_message_effects m)
qed

theorem engagement_always_sent_witness:
  "websocketTask scenario_url_call_id (wssUrl ''RTC1'')
     = ([WebSocketOpen (wssUrl ''RTC1'')], Some (WebSocket (wssUrl ''RTC1'')))
   \<and> handoff_request (Inr scenario_message)
   \<and> fst (on_message scenario_url_call_id scenario_config store_without_token
            (WebSocket (wssUrl ''RTC1'')) (Inr scenario_message) Pending) =
       [ConsoleLog [LStr ''Adding human to conference:'', LVal (Parsed (JStr ''CA123''))],
        WsSend keepChatting,
        WsSend (JObj [(''type'', JStr ''response.create'')]),
        UnhandledRejection (JsError ''Error'' ''CallToken is not defined'')]
   \<and> filter is_ws_send
        (fst (on_message scenario_url_call_id scenario_config store_without_token
                (WebSocket (wssUrl ''RTC1'')) (Inr scenario_message) Pending)) =
       [WsSend keepChatting, WsSend (JObj [(''type'', JStr ''response.create'')])]"
proof -
  have w: "websocketTask scenario_url_call_id (wssUrl ''RTC1'')
     = ([WebSocketOpen (wssUrl ''RTC1'')], Some (WebSocket (wssUrl ''RTC1'')))"
    by (simp add: websocketTask_def scenario_url_call_id_def)
  have run: "fst (on_message scenario_url_call_id scenario_config store_without_token
            (WebSocket (wssUrl ''RTC1'')) (Inr scenario_message) Pending) =
       [ConsoleLog [LStr ''Adding human to conference:'', LVal (Parsed (JStr ''CA123''))],
        WsSend keepChatting,
        WsSend (JObj [(''type'', JStr ''response.create'')]),
        UnhandledRejection (JsError ''Error'' ''CallToken is not defined'')]"
    by (simp add: on_message_def message_try_def handleFunctionCall_def addHuman_def
        scenario_message_def scenario_url_call_id_def store_without_token_def
        scenario_store_def empty_table_def table_set_def table_get_def
        from_object_prototype_def object_prototype_members_def)
  show ?thesis
    using w run scenario_message_handoff
      engagement_always_sent [where url_call_id = scenario_url_call_id
        and uri = "wssUrl ''RTC1''" and opened = "[WebSocketOpen (wssUrl ''RTC1'')]"
        and ws = "WebSocket (wssUrl ''RTC1'')" and parsed = "Inr scenario_message"
        and cfg = scenario_config and st = store_without_token and created = Pending]
    by simp
qed

end
